theory Spec2Isabelle
  imports Main "HOL-Library.AList" "HOL-Library.Char_ord" "HOL-Library.List_Lexorder"
begin

section \<open>Data model of the profile manager (src/app.py)\<close>

text \<open>
  A profile is the Python dict stored under one username. The program reads and writes
  the keys \<^verbatim>\<open>token\<close>, \<^verbatim>\<open>name\<close>, \<^verbatim>\<open>email\<close>, \<^verbatim>\<open>tag\<close>, \<^verbatim>\<open>avatar_url\<close> and
  \<^verbatim>\<open>is_current\<close>; a field is \<open>None\<close> when the key is absent. The string keys hold
  strings, \<^verbatim>\<open>is_current\<close> holds a boolean, and \<^verbatim>\<open>avatar_url\<close> may hold Python's
  \<^verbatim>\<open>None\<close> (the inner option), since \<^verbatim>\<open>handle_oauth_completion\<close> stores whatever
  \<^verbatim>\<open>data.get('avatar_url')\<close> returned.
\<close>

record profile =
  token :: "string option"
  name :: "string option"
  email :: "string option"
  tag :: "string option"
  avatar_url :: "string option option"
  is_current :: "bool option"

text \<open>
  \<^verbatim>\<open>self.profiles\<close> is a dict from username to profile. Python dicts keep insertion
  order, \<^verbatim>\<open>get_current_profile\<close> scans in that order, and an assignment to an existing
  key keeps its position: an association list with \<open>AList.update\<close>, \<open>AList.delete\<close> and
  \<open>map_of\<close>. The keys of a dict are distinct.
\<close>

type_synonym profiles = "(string \<times> profile) list"

text \<open>
  The dict returned by \<^verbatim>\<open>get_git_credentials\<close>: the keys \<^verbatim>\<open>username\<close>,
  \<^verbatim>\<open>password\<close>, \<^verbatim>\<open>name\<close> and \<^verbatim>\<open>email\<close>, each possibly absent
  (\<^verbatim>\<open>merge_profiles\<close> reads them with \<^verbatim>\<open>.get\<close>).
\<close>

record git_profile =
  gp_username :: "string option"
  gp_password :: "string option"
  gp_name :: "string option"
  gp_email :: "string option"

definition empty_git_profile :: git_profile where
  "empty_git_profile = \<lparr>gp_username = None, gp_password = None, gp_name = None,
     gp_email = None\<rparr>"

text \<open>Python truthiness of \<^verbatim>\<open>d.get(k)\<close> for a string-valued key: absent and \<^verbatim>\<open>''\<close> are falsy.\<close>

fun truthy :: "string option \<Rightarrow> bool" where
  "truthy None = False"
| "truthy (Some s) = (s \<noteq> [])"

text \<open>\<^verbatim>\<open>d.get(k, default)\<close>.\<close>

fun get_or :: "'a option \<Rightarrow> 'a \<Rightarrow> 'a" where
  "get_or None d = d"
| "get_or (Some v) d = v"

text \<open>\<^verbatim>\<open>d.get(k) or default\<close> for a string-valued key.\<close>

fun get_or_else :: "string option \<Rightarrow> string \<Rightarrow> string" where
  "get_or_else None d = d"
| "get_or_else (Some s) d = (if s = [] then d else s)"

text \<open>\<^verbatim>\<open>if profile:\<close> a dict is truthy when it has at least one key.\<close>

definition profile_truthy :: "profile \<Rightarrow> bool" where
  "profile_truthy p \<longleftrightarrow>
     token p \<noteq> None \<or> name p \<noteq> None \<or> email p \<noteq> None \<or> tag p \<noteq> None
     \<or> avatar_url p \<noteq> None \<or> is_current p \<noteq> None"

text \<open>\<^verbatim>\<open>profile.get('is_current', False)\<close>.\<close>

definition is_active :: "profile \<Rightarrow> bool" where
  "is_active p = get_or (is_current p) False"

section \<open>The merge engine: \<^verbatim>\<open>merge_profiles\<close>\<close>

text \<open>
  \<^verbatim>\<open>merge_profiles(keyring_profiles, git_profile)\<close> mutates \<^verbatim>\<open>keyring_profiles\<close> and
  stores it in \<^verbatim>\<open>self.profiles\<close>; the function below returns that dict.
  \<^verbatim>\<open>save_profiles\<close>, called last, only writes to the keyring and catches every
  exception, so it does not change the dict.
\<close>

definition merge_existing :: "profile \<Rightarrow> git_profile \<Rightarrow> profile" where
  "merge_existing p gp =
     (let p1 = (if truthy (gp_email gp) \<and> \<not> truthy (email p)
                then p\<lparr>email := gp_email gp\<rparr> else p);
          p2 = (if truthy (gp_name gp) \<and> \<not> truthy (name p1)
                then p1\<lparr>name := gp_name gp\<rparr> else p1)
      in p2)"

definition new_profile_from_git :: "string \<Rightarrow> git_profile \<Rightarrow> profile" where
  "new_profile_from_git username gp =
     \<lparr>token = gp_password gp,
      name = Some (get_or_else (gp_name gp) username),
      email = Some (get_or_else (gp_email gp) []),
      tag = Some ''N/A'',
      avatar_url = None,
      is_current = None\<rparr>"

definition merge_profiles :: "profiles \<Rightarrow> git_profile \<Rightarrow> profiles" where
  "merge_profiles keyring_profiles gp =
     (case gp_username gp of
        None \<Rightarrow> keyring_profiles
      | Some username \<Rightarrow>
          if username \<noteq> [] \<and> gp_password gp \<noteq> None then
            (case map_of keyring_profiles username of
               Some p \<Rightarrow> AList.update username (merge_existing p gp) keyring_profiles
             | None \<Rightarrow>
                 AList.update username (new_profile_from_git username gp) keyring_profiles)
          else keyring_profiles)"

section \<open>Resolving the active profile: \<^verbatim>\<open>get_current_profile\<close>\<close>

text \<open>
  The loop of \<^verbatim>\<open>get_current_profile\<close> over \<^verbatim>\<open>self.profiles.items()\<close>, given the two
  strings read from git's global configuration.
\<close>

definition matches :: "profile \<Rightarrow> string \<Rightarrow> string \<Rightarrow> bool" where
  "matches p current_name current_email \<longleftrightarrow>
     get_or (name p) [] = current_name \<and> get_or (email p) [] = current_email"

fun find_current :: "profiles \<Rightarrow> string \<Rightarrow> string \<Rightarrow> string option" where
  "find_current [] current_name current_email = None"
| "find_current ((username, p) # ps) current_name current_email =
     (if matches p current_name current_email then Some username
      else find_current ps current_name current_email)"

section \<open>The external git subsystem\<close>

text \<open>
  The program talks to git through \<^verbatim>\<open>subprocess.run\<close>. The commands it issues are
  listed below; the state they act on is the global identity (\<^verbatim>\<open>user.name\<close>,
  \<^verbatim>\<open>user.email\<close>), the configured credential helper and the credentials held for
  \<^verbatim>\<open>github.com\<close> (username and password) by the credential store behind the helper.
  A command run with \<^verbatim>\<open>check=True\<close> raises \<^verbatim>\<open>CalledProcessError\<close> when git
  exits with a non-zero status; which commands do so is a parameter \<open>fails\<close> of every
  operation, and a failed command leaves the git state as it was.
\<close>

datatype gkey = UserName | UserEmail | CredentialHelper

datatype git_cmd =
    ConfigGet gkey
  | ConfigSet gkey string
  | ConfigUnset gkey
  | CredentialFill
  | CredentialApprove string string
  | CredentialReject "string option"

record git_state =
  user_name :: "string option"
  user_email :: "string option"
  credential_helper :: "string option"
  credentials :: "(string \<times> string) list"

fun config_value :: "git_state \<Rightarrow> gkey \<Rightarrow> string option" where
  "config_value g UserName = user_name g"
| "config_value g UserEmail = user_email g"
| "config_value g CredentialHelper = credential_helper g"

fun config_update :: "gkey \<Rightarrow> string option \<Rightarrow> git_state \<Rightarrow> git_state" where
  "config_update UserName v g = g\<lparr>user_name := v\<rparr>"
| "config_update UserEmail v g = g\<lparr>user_email := v\<rparr>"
| "config_update CredentialHelper v g = g\<lparr>credential_helper := v\<rparr>"

text \<open>
  The effect of a command that succeeds. \<^verbatim>\<open>git credential approve\<close> and
  \<^verbatim>\<open>git credential reject\<close> only pass the credential on to the configured helper:
  with no \<^verbatim>\<open>credential.helper\<close> set they exit with status 0 and the store is left as
  it is. With a helper, \<^verbatim>\<open>reject\<close> with a username removes that credential, and with
  only protocol and host it removes every credential for the host.
\<close>

fun git_exec :: "git_cmd \<Rightarrow> git_state \<Rightarrow> git_state" where
  "git_exec (ConfigGet k) g = g"
| "git_exec (ConfigSet k v) g = config_update k (Some v) g"
| "git_exec (ConfigUnset k) g = config_update k None g"
| "git_exec CredentialFill g = g"
| "git_exec (CredentialApprove u pw) g =
     (if credential_helper g = None then g
      else g\<lparr>credentials := AList.update u pw (credentials g)\<rparr>)"
| "git_exec (CredentialReject (Some u)) g =
     (if credential_helper g = None then g
      else g\<lparr>credentials := AList.delete u (credentials g)\<rparr>)"
| "git_exec (CredentialReject None) g =
     (if credential_helper g = None then g else g\<lparr>credentials := []\<rparr>)"

datatype error =
    CalledProcessError git_cmd
  | PyException string
  | KeyringException
  | RequestException
  | ApiStatusException

text \<open>
  A sequence of \<^verbatim>\<open>subprocess.run(..., check=True)\<close> calls inside one \<^verbatim>\<open>try\<close> block:
  the state reached, and the exception that ended the block, if any.
\<close>

fun git_seq :: "(git_cmd \<Rightarrow> bool) \<Rightarrow> git_cmd list \<Rightarrow> git_state \<Rightarrow> git_state \<times> error option" where
  "git_seq fails [] g = (g, None)"
| "git_seq fails (c # cs) g =
     (if fails c then (g, Some (CalledProcessError c)) else git_seq fails cs (git_exec c g))"

text \<open>
  Python's \<^verbatim>\<open>str.strip()\<close>, a character standing for its code point below 256:
  \<^verbatim>\<open>str.isspace\<close> holds of the code points 9 to 13, 28 to 32, 133 and 160.
\<close>

definition is_space :: "char \<Rightarrow> bool" where
  "is_space c \<longleftrightarrow>
     (of_char c :: nat) \<in> {9, 10, 11, 12, 13, 28, 29, 30, 31, 32, 133, 160}"

definition strip :: "string \<Rightarrow> string" where
  "strip s = rev (dropWhile is_space (rev (dropWhile is_space s)))"

text \<open>
  \<^verbatim>\<open>subprocess.run(['git', 'config', '--global', key], capture_output=True,
  text=True).stdout.strip()\<close>, without \<^verbatim>\<open>check\<close>: git prints the value, or nothing (and
  exits with status 1) when the key is not set.
\<close>

definition config_stdout :: "(git_cmd \<Rightarrow> bool) \<Rightarrow> git_state \<Rightarrow> gkey \<Rightarrow> string" where
  "config_stdout fails g k =
     (if fails (ConfigGet k) then []
      else case config_value g k of None \<Rightarrow> [] | Some v \<Rightarrow> strip v)"

text \<open>\<^verbatim>\<open>get_git_user_info\<close>: the same two reads with \<^verbatim>\<open>check=True\<close>, inside one \<^verbatim>\<open>try\<close>.\<close>

definition get_git_user_info :: "(git_cmd \<Rightarrow> bool) \<Rightarrow> git_state \<Rightarrow> string \<times> string" where
  "get_git_user_info fails g =
     (if fails (ConfigGet UserName) \<or> user_name g = None then ([], [])
      else if fails (ConfigGet UserEmail) \<or> user_email g = None then ([], [])
      else (config_stdout fails g UserName, config_stdout fails g UserEmail))"

text \<open>
  \<^verbatim>\<open>get_git_credentials\<close>. The argument \<open>fill\<close> is what the parse of the output of
  \<^verbatim>\<open>git credential fill\<close> found under \<^verbatim>\<open>username\<close> and \<^verbatim>\<open>password\<close>.
\<close>

definition get_git_credentials ::
    "(git_cmd \<Rightarrow> bool) \<Rightarrow> string option \<times> string option \<Rightarrow> git_state \<Rightarrow> git_profile" where
  "get_git_credentials fails fill g =
     (if fails CredentialFill then empty_git_profile
      else case fill of
        (Some u, Some pw) \<Rightarrow>
          (case get_git_user_info fails g of
             (git_name, git_email) \<Rightarrow>
               \<lparr>gp_username = Some u, gp_password = Some pw,
                gp_name = Some git_name, gp_email = Some git_email\<rparr>)
      | _ \<Rightarrow> empty_git_profile)"

section \<open>The profile manager: state and operations\<close>

text \<open>
  What the user is shown: \<^verbatim>\<open>ErrorBoundary.handle_error(error, message)\<close> and the
  \<^verbatim>\<open>QMessageBox\<close> warnings and information boxes (title and text).
  \<open>Critical message error\<close> is the box with the text
  \<^verbatim>\<open>f"{message}: {str(error)}"\<close>; \<open>CriticalStr prefix error\<close> is the same box when
  the message passed is itself \<^verbatim>\<open>f"{prefix}{str(error)}"\<close>, as \<^verbatim>\<open>delete_profile\<close>
  passes it.
\<close>

datatype notice =
    Critical string error
  | CriticalStr string error
  | Warning string string
  | Information string string

text \<open>
  The state of \<^verbatim>\<open>GitHubProfileManager\<close>: the dict \<^verbatim>\<open>self.profiles\<close>, the git
  subsystem it writes through to, and the message boxes shown so far. The keyring is
  written by \<^verbatim>\<open>save_profiles\<close>, which catches every exception and changes nothing
  else; it is not part of the state.
\<close>

record manager =
  profiles :: profiles
  git :: git_state
  notices :: "notice list"

text \<open>
  The outcomes an operation does not control: which git commands fail, and whether
  \<^verbatim>\<open>keyring.delete_password\<close> raises.
\<close>

record env =
  git_fails :: "git_cmd \<Rightarrow> bool"
  keyring_delete_fails :: bool

definition notify :: "notice \<Rightarrow> manager \<Rightarrow> manager" where
  "notify n s = s\<lparr>notices := notices s @ [n]\<rparr>"

definition remove_all_github_credentials :: "env \<Rightarrow> git_state \<Rightarrow> git_state" where
  "remove_all_github_credentials e g = fst (git_seq (git_fails e) [CredentialReject None] g)"

definition remove_git_credential :: "env \<Rightarrow> string \<Rightarrow> git_state \<Rightarrow> git_state" where
  "remove_git_credential e username g =
     fst (git_seq (git_fails e) [CredentialReject (Some username)] g)"

definition update_git_config ::
    "env \<Rightarrow> string \<Rightarrow> string \<Rightarrow> string \<Rightarrow> string \<Rightarrow> manager \<Rightarrow> manager" where
  "update_git_config e username nm em tok s =
     (case git_seq (git_fails e)
        [ConfigSet UserName nm, ConfigSet UserEmail em,
         ConfigSet CredentialHelper ''manager-core'', CredentialApprove username tok]
        (remove_all_github_credentials e (git s)) of
        (g, None) \<Rightarrow> s\<lparr>git := g\<rparr>
      | (g, Some err) \<Rightarrow> notify (Critical ''Failed to update Git config'' err) (s\<lparr>git := g\<rparr>))"

definition set_current :: "string \<Rightarrow> profiles \<Rightarrow> profiles" where
  "set_current new_current_username ps =
     map (\<lambda>(username, p). (username, p\<lparr>is_current := Some (username = new_current_username)\<rparr>)) ps"

definition clear_current :: "profiles \<Rightarrow> profiles" where
  "clear_current ps = map (\<lambda>(username, p). (username, p\<lparr>is_current := Some False\<rparr>)) ps"

definition update_current_profile :: "string \<Rightarrow> manager \<Rightarrow> manager" where
  "update_current_profile new_current_username s =
     s\<lparr>profiles := set_current new_current_username (profiles s)\<rparr>"

definition get_current_profile :: "env \<Rightarrow> manager \<Rightarrow> string option" where
  "get_current_profile e s =
     find_current (profiles s) (config_stdout (git_fails e) (git s) UserName)
       (config_stdout (git_fails e) (git s) UserEmail)"

definition switch_to_profile :: "env \<Rightarrow> string \<Rightarrow> manager \<Rightarrow> error + manager" where
  "switch_to_profile e username s =
     (case map_of (profiles s) username of
        None \<Rightarrow> Inl (PyException ''Profile data is not available'')
      | Some p \<Rightarrow>
          if profile_truthy p then
            (case token p of
               None \<Rightarrow> Inl (PyException ''Token not found for the selected profile'')
             | Some tok \<Rightarrow>
                 if tok \<noteq> [] then
                   Inr (notify (Information ''Profile Switch'' (''Switched to profile: '' @ username))
                     (update_current_profile username
                       (update_git_config e username (get_or (name p) username)
                         (get_or (email p) []) tok s)))
                 else Inl (PyException ''Token not found for the selected profile''))
          else Inl (PyException ''Profile data is not available''))"

text \<open>
  \<^verbatim>\<open>switch_profile\<close>; \<open>selected\<close> is the username in the selected table row, if a row
  is selected.
\<close>

definition switch_profile :: "env \<Rightarrow> string option \<Rightarrow> manager \<Rightarrow> manager" where
  "switch_profile e selected s =
     (case selected of
        None \<Rightarrow> notify (Warning ''Error'' ''No profile selected'') s
      | Some username \<Rightarrow>
          (case map_of (profiles s) username of
             None \<Rightarrow>
               notify (Critical ''Failed to switch profile''
                 (PyException ''Profile data is not available'')) s
           | Some p \<Rightarrow>
               if profile_truthy p then
                 (case token p of
                    None \<Rightarrow>
                      notify (Critical ''Failed to switch profile''
                        (PyException ''Token not found for the selected profile'')) s
                  | Some tok \<Rightarrow>
                      if tok \<noteq> [] then
                        notify (Information ''Success'' (''Switched to profile: '' @ username))
                          (update_current_profile username
                            (update_git_config e username (get_or (name p) username)
                              (get_or (email p) []) tok s))
                      else
                        notify (Critical ''Failed to switch profile''
                          (PyException ''Token not found for the selected profile'')) s)
               else
                 notify (Critical ''Failed to switch profile''
                   (PyException ''Profile data is not available'')) s))"

definition clear_git_config :: "env \<Rightarrow> manager \<Rightarrow> manager" where
  "clear_git_config e s =
     (case git_seq (git_fails e)
        [ConfigUnset UserName, ConfigUnset UserEmail, ConfigUnset CredentialHelper] (git s) of
        (g, Some err) \<Rightarrow> notify (Critical ''Failed to clear Git config'' err) (s\<lparr>git := g\<rparr>)
      | (g, None) \<Rightarrow>
          notify (Information ''Info'' ''Git configuration cleared'')
            (s\<lparr>git := remove_all_github_credentials e g,
               profiles := clear_current (profiles s)\<rparr>))"

text \<open>
  \<^verbatim>\<open>delete_profile\<close>. \<open>selected\<close> is the username in the selected row; \<open>confirm\<close>
  is the answer to the question asked before the current profile is deleted.
  \<^verbatim>\<open>sorted(self.profiles.keys())[0]\<close> is read only when the dict is not empty.
\<close>

definition delete_profile :: "env \<Rightarrow> string option \<Rightarrow> bool \<Rightarrow> manager \<Rightarrow> manager" where
  "delete_profile e selected confirm s =
     (case selected of
        None \<Rightarrow> notify (Warning ''Error'' ''No profile selected'') s
      | Some username \<Rightarrow>
          (case map_of (profiles s) username of
             None \<Rightarrow>
               notify (CriticalStr ''Failed to delete profile: ''
                 (PyException (''Profile '' @ username @ '' not found in stored profiles''))) s
           | Some p \<Rightarrow>
               if is_active p \<and> \<not> confirm then s
               else
                 (let s1 = s\<lparr>profiles := AList.delete username (profiles s)\<rparr> in
                  if keyring_delete_fails e then
                    notify (CriticalStr ''Failed to delete profile: '' KeyringException) s1
                  else
                    (let s2 = s1\<lparr>git := remove_git_credential e username (git s1)\<rparr> in
                     if is_active p then
                       (if profiles s2 \<noteq> [] then
                          (case switch_to_profile e (hd (sort (map fst (profiles s2)))) s2 of
                             Inl err \<Rightarrow>
                               notify (CriticalStr ''Failed to delete profile: '' err) s2
                           | Inr s3 \<Rightarrow>
                               notify (Information ''Success'' (''Deleted profile: '' @ username))
                                 s3)
                        else
                          notify (Information ''Success'' (''Deleted profile: '' @ username))
                            (clear_git_config e s2))
                     else
                       notify (Information ''Success'' (''Deleted profile: '' @ username)) s2))))"

text \<open>
  \<^verbatim>\<open>edit_profile\<close>. \<open>edited\<close> is the content of the three line edits when the dialog
  is accepted, and \<open>None\<close> when it is cancelled.
\<close>

definition edit_profile ::
    "env \<Rightarrow> string option \<Rightarrow> (string \<times> string \<times> string) option \<Rightarrow> manager \<Rightarrow> manager" where
  "edit_profile e selected edited s =
     (case selected of
        None \<Rightarrow> notify (Warning ''Error'' ''No profile selected'') s
      | Some username \<Rightarrow>
          (case map_of (profiles s) username of
             None \<Rightarrow> notify (Warning ''Error'' ''Profile data not found'') s
           | Some p \<Rightarrow>
               if profile_truthy p then
                 (case edited of
                    None \<Rightarrow> s
                  | Some (new_name, new_email, new_tag) \<Rightarrow>
                      (let p' = p\<lparr>name := Some new_name, email := Some new_email,
                                  tag := Some new_tag\<rparr>;
                           s1 = s\<lparr>profiles := AList.update username p' (profiles s)\<rparr>;
                           s2 = (if is_active p' then
                                   (case token p' of
                                      None \<Rightarrow> s1
                                    | Some tok \<Rightarrow>
                                        if tok \<noteq> [] then
                                          update_git_config e username new_name new_email tok s1
                                        else s1)
                                 else s1)
                       in notify (Information ''Success'' (''Updated profile for '' @ username))
                            s2))
               else notify (Warning ''Error'' ''Profile data not found'') s))"

text \<open>
  The result of \<^verbatim>\<open>get_github_user_info\<close>: it raises on a status other than 200,
  reports a network error and returns four \<^verbatim>\<open>None\<close>s, or returns the login, name,
  email and avatar URL of the answer, each possibly \<^verbatim>\<open>None\<close>.
\<close>

datatype user_info =
    ApiStatusError
  | NetworkError
  | UserInfo "string option" "string option" "string option" "string option"

text \<open>
  \<^verbatim>\<open>handle_oauth_completion(token)\<close>. \<open>info\<close> is the result of
  \<^verbatim>\<open>get_github_user_info\<close> and \<open>tag_input\<close> the text of the tag dialog (\<open>None\<close> when
  it is cancelled).
\<close>

definition handle_oauth_completion ::
    "env \<Rightarrow> string \<Rightarrow> user_info \<Rightarrow> string option \<Rightarrow> manager \<Rightarrow> manager" where
  "handle_oauth_completion e tok info tag_input s =
     (if tok = [] then notify (Warning ''Error'' ''Failed to obtain access token'') s
      else
        (case info of
           ApiStatusError \<Rightarrow>
             notify (Critical ''Failed to complete OAuth process'' ApiStatusException) s
         | NetworkError \<Rightarrow>
             notify (Critical ''Failed to retrieve GitHub user information'' RequestException) s
         | UserInfo login nm em avatar \<Rightarrow>
             (case login of
                None \<Rightarrow> s
              | Some username \<Rightarrow>
                  if username = [] then s
                  else if map_of (profiles s) username \<noteq> None then
                    notify (Information ''Info''
                      (''Profile for '' @ username @ '' already exists'')) s
                  else
                    (case tag_input of
                       None \<Rightarrow> s
                     | Some tg \<Rightarrow>
                         (let new_profile =
                                \<lparr>token = Some tok, name = Some (get_or_else nm username),
                                 email = Some (get_or_else em []), tag = Some tg,
                                 avatar_url = Some avatar, is_current = None\<rparr>;
                              s1 = s\<lparr>profiles := AList.update username new_profile (profiles s)\<rparr>
                          in if \<not> truthy (get_current_profile e s1) then
                               (let s2 = update_current_profile username s1 in
                                case switch_to_profile e username s2 of
                                  Inl err \<Rightarrow>
                                    notify (Critical ''Failed to complete OAuth process'' err) s2
                                | Inr s3 \<Rightarrow>
                                    notify (Information ''Success''
                                      (''Added profile for '' @ username @ '' as current'')) s3)
                             else
                               notify (Information ''Success''
                                 (''Added profile for '' @ username)) s1)))))"

text \<open>
  \<^verbatim>\<open>load_profiles\<close>. \<open>keyring\<close> is the dict built by \<^verbatim>\<open>load_keyring_profiles\<close>
  (\<open>None\<close> when the keyring raises) and \<open>fill\<close> the parsed output of
  \<^verbatim>\<open>git credential fill\<close>.
\<close>

definition load_profiles ::
    "env \<Rightarrow> profiles option \<Rightarrow> string option \<times> string option \<Rightarrow> manager \<Rightarrow> manager" where
  "load_profiles e keyring fill s =
     (case keyring of
        None \<Rightarrow> notify (Critical ''Failed to load profiles'' KeyringException) s
      | Some keyring_profiles \<Rightarrow>
          (let s1 = s\<lparr>profiles := merge_profiles keyring_profiles
                        (get_git_credentials (git_fails e) fill (git s))\<rparr>
           in case get_current_profile e s1 of
                None \<Rightarrow> s1\<lparr>profiles := clear_current (profiles s1)\<rparr>
              | Some current_profile \<Rightarrow>
                  if current_profile \<noteq> [] then update_current_profile current_profile s1
                  else s1\<lparr>profiles := clear_current (profiles s1)\<rparr>))"

text \<open>
  \<^verbatim>\<open>GitHubProfileManager.__init__\<close>: the empty dict, \<^verbatim>\<open>load_profiles\<close>, and one more
  look for the current profile.
\<close>

definition init_manager ::
    "env \<Rightarrow> profiles option \<Rightarrow> string option \<times> string option \<Rightarrow> git_state \<Rightarrow> manager" where
  "init_manager e keyring fill g =
     (let s1 = load_profiles e keyring fill \<lparr>profiles = [], git = g, notices = []\<rparr>
      in case get_current_profile e s1 of
           None \<Rightarrow> s1
         | Some current_profile \<Rightarrow>
             if current_profile \<noteq> [] then update_current_profile current_profile s1 else s1)"

text \<open>
  The operations on a running manager, each with the inputs it receives from the user and
  from the outside, and the states reachable from start-up by any sequence of them. The
  dict read from the keyring is a dict: its keys are distinct.
\<close>

datatype operation =
    LoadProfiles "profiles option" "string option \<times> string option"
  | AddAccount string user_info "string option"
  | SwitchProfile "string option"
  | EditProfile "string option" "(string \<times> string \<times> string) option"
  | DeleteProfile "string option" bool
  | ClearGitConfig

fun well_formed :: "operation \<Rightarrow> bool" where
  "well_formed (LoadProfiles (Some keyring_profiles) fill) = distinct (map fst keyring_profiles)"
| "well_formed _ = True"

fun step :: "env \<Rightarrow> operation \<Rightarrow> manager \<Rightarrow> manager" where
  "step e (LoadProfiles keyring fill) s = load_profiles e keyring fill s"
| "step e (AddAccount tok info tag_input) s = handle_oauth_completion e tok info tag_input s"
| "step e (SwitchProfile selected) s = switch_profile e selected s"
| "step e (EditProfile selected edited) s = edit_profile e selected edited s"
| "step e (DeleteProfile selected confirm) s = delete_profile e selected confirm s"
| "step e ClearGitConfig s = clear_git_config e s"

inductive reachable :: "manager \<Rightarrow> bool" where
  start: "well_formed (LoadProfiles keyring fill) \<Longrightarrow> reachable (init_manager e keyring fill g)"
| next_state: "reachable s \<Longrightarrow> well_formed op \<Longrightarrow> reachable (step e op s)"

text \<open>The number of profiles with \<^verbatim>\<open>is_current\<close> true.\<close>

definition active_count :: "profiles \<Rightarrow> nat" where
  "active_count ps = length (filter (\<lambda>(username, p). is_active p) ps)"

text \<open>The representation invariant of the dict together with the invariant on the flags.\<close>

definition profiles_ok :: "profiles \<Rightarrow> bool" where
  "profiles_ok ps \<longleftrightarrow> distinct (map fst ps) \<and> active_count ps \<le> 1"

section \<open>The device authorization dialog: \<^verbatim>\<open>GitHubOAuthDialog\<close>\<close>

text \<open>
  The answer to one token poll: \<^verbatim>\<open>requests.post\<close> raised a \<^verbatim>\<open>RequestException\<close>, or
  the JSON object of the response, of which the handler reads the keys \<^verbatim>\<open>error\<close> (a
  string), \<^verbatim>\<open>interval\<close> (a number of seconds) and \<^verbatim>\<open>access_token\<close> (a string), each
  possibly absent.
\<close>

datatype poll_response =
    PollRequestError
  | PollData "string option" "int option" "string option"

datatype dialog_result = Open | Accepted | Rejected

text \<open>
  The state of the dialog: the fields set by the constructor, whether each of the two
  \<^verbatim>\<open>QTimer\<close>s is running, the interval of the poll timer in milliseconds, whether the
  retry button is enabled, whether \<^verbatim>\<open>accept()\<close> or \<^verbatim>\<open>reject()\<close> has been called, the
  tokens emitted on \<^verbatim>\<open>auth_completed\<close> and the message boxes shown.
\<close>

record oauth_dialog =
  oauth_url :: string
  user_code :: string
  device_code :: string
  expires_in :: int
  interval :: int
  timer_active :: bool
  poll_timer_active :: bool
  poll_timer_interval :: int
  retry_enabled :: bool
  dialog_result :: dialog_result
  emitted :: "string list"
  shown :: "notice list"

text \<open>\<^verbatim>\<open>__init__\<close> and \<^verbatim>\<open>init_ui\<close>: both timers are started, the retry button is disabled.\<close>

definition init_dialog :: "string \<Rightarrow> string \<Rightarrow> int \<Rightarrow> string \<Rightarrow> int \<Rightarrow> oauth_dialog" where
  "init_dialog url code expires dev_code ival =
     \<lparr>oauth_url = url, user_code = code, device_code = dev_code, expires_in = expires,
      interval = ival, timer_active = True, poll_timer_active = True,
      poll_timer_interval = ival * 1000, retry_enabled = False, dialog_result = Open,
      emitted = [], shown = []\<rparr>"

text \<open>
  \<^verbatim>\<open>poll_for_token\<close>. Three of its branches hand control to a nested event loop before
  they are done: the message boxes of the error branches are modal and are shown before
  \<^verbatim>\<open>self.reject()\<close>; \<^verbatim>\<open>ErrorBoundary.handle_error\<close> shows a modal box; and
  \<^verbatim>\<open>self.auth_completed.emit(access_token)\<close> runs the connected slot,
  \<^verbatim>\<open>handle_oauth_completion\<close>, with its modal dialogs, before
  \<^verbatim>\<open>self.poll_timer.stop()\<close> and \<^verbatim>\<open>self.accept()\<close>. The timers keep firing in a
  nested event loop; \<open>during\<close> is what their handlers do to the dialog meanwhile.
\<close>

definition warn_reject ::
    "(oauth_dialog \<Rightarrow> oauth_dialog) \<Rightarrow> string \<Rightarrow> oauth_dialog \<Rightarrow> oauth_dialog" where
  "warn_reject during msg d =
     (during (d\<lparr>shown := shown d @ [Warning ''Error'' msg]\<rparr>))\<lparr>dialog_result := Rejected\<rparr>"

definition poll_for_token ::
    "(oauth_dialog \<Rightarrow> oauth_dialog) \<Rightarrow> poll_response \<Rightarrow> oauth_dialog \<Rightarrow> oauth_dialog" where
  "poll_for_token during r d =
     (case r of
        PollRequestError \<Rightarrow>
          during (d\<lparr>shown := shown d @
            [Critical ''Error polling for access token'' RequestException]\<rparr>)
      | PollData err ival tok \<Rightarrow>
          (case err of
             Some er \<Rightarrow>
               if er = ''authorization_pending'' then d
               else if er = ''slow_down'' then
                 (let i = get_or ival (interval d + 5)
                  in d\<lparr>interval := i, poll_timer_interval := i * 1000\<rparr>)
               else if er = ''expired_token'' then
                 warn_reject during ''The device code has expired. Please try again.'' d
               else if er = ''access_denied'' then
                 warn_reject during ''Access denied. The user cancelled the authorization.'' d
               else warn_reject during (''An error occurred: '' @ er) d
           | None \<Rightarrow>
               (case tok of
                  Some access_token \<Rightarrow>
                    (during (d\<lparr>emitted := emitted d @ [access_token]\<rparr>))
                      \<lparr>poll_timer_active := False, dialog_result := Accepted\<rparr>
                | None \<Rightarrow> d)))"

definition update_timer :: "oauth_dialog \<Rightarrow> oauth_dialog" where
  "update_timer d =
     (let d1 = d\<lparr>expires_in := expires_in d - 1\<rparr>
      in if expires_in d1 \<le> 0 then d1\<lparr>timer_active := False, retry_enabled := True\<rparr> else d1)"

text \<open>
  The two timers feed the handlers: a \<^verbatim>\<open>QTimer\<close> delivers its timeout only while it is
  running. A poll tick carries the answer to its request and the ticks that are delivered
  in the nested event loops of its handler, in their order.
\<close>

datatype tick = PollTick poll_response "tick list" | CountdownTick

fun deliver :: "tick \<Rightarrow> oauth_dialog \<Rightarrow> oauth_dialog"
  and run_ticks :: "tick list \<Rightarrow> oauth_dialog \<Rightarrow> oauth_dialog" where
  "deliver (PollTick r nested) d =
     (if poll_timer_active d then poll_for_token (\<lambda>d'. run_ticks nested d') r d else d)"
| "deliver CountdownTick d = (if timer_active d then update_timer d else d)"
| "run_ticks [] d = d"
| "run_ticks (t # ts) d = run_ticks ts (deliver t d)"

section \<open>Concrete inputs used by the examples\<close>

definition alice_external :: git_profile where
  "alice_external = \<lparr>gp_username = Some ''alice'', gp_password = Some ''t1'',
     gp_name = Some ''Alice A'', gp_email = Some ''a@x.com''\<rparr>"

definition alice_without_secret :: git_profile where
  "alice_without_secret = \<lparr>gp_username = Some ''alice'', gp_password = None,
     gp_name = Some ''Alice A'', gp_email = Some ''a@x.com''\<rparr>"

definition alice_stored :: profile where
  "alice_stored = \<lparr>token = Some ''old'', name = Some ''Alice'', email = Some [],
     tag = Some ''work'', avatar_url = None, is_current = Some True\<rparr>"

definition alice_tokenless :: profile where
  "alice_tokenless = \<lparr>token = None, name = Some ''Alice'', email = Some ''alice@y.org'',
     tag = Some ''work'', avatar_url = None, is_current = None\<rparr>"

definition bob_stored :: profile where
  "bob_stored = \<lparr>token = Some ''tb'', name = Some ''Bob'', email = Some ''b@x.com'',
     tag = Some ''home'', avatar_url = Some None, is_current = Some False\<rparr>"

definition carol_stored :: profile where
  "carol_stored = \<lparr>token = Some ''tc'', name = None, email = None,
     tag = Some ''N/A'', avatar_url = None, is_current = None\<rparr>"

definition bob_tokenless :: profile where
  "bob_tokenless = \<lparr>token = None, name = Some ''Bob'', email = Some ''b@x.com'',
     tag = Some ''home'', avatar_url = None, is_current = Some False\<rparr>"

definition git_of_alice :: git_state where
  "git_of_alice = \<lparr>user_name = Some ''Alice'', user_email = Some [],
     credential_helper = Some ''manager-core'', credentials = [(''alice'', ''old'')]\<rparr>"

definition no_failures :: env where
  "no_failures = \<lparr>git_fails = (\<lambda>c. False), keyring_delete_fails = False\<rparr>"

definition set_name_fails :: env where
  "set_name_fails = \<lparr>git_fails = (\<lambda>c. c = ConfigSet UserName ''Bob''),
     keyring_delete_fails = False\<rparr>"

definition alice_and_bob :: manager where
  "alice_and_bob = \<lparr>profiles = [(''alice'', alice_stored), (''bob'', bob_stored)],
     git = git_of_alice, notices = []\<rparr>"

definition alice_and_tokenless_bob :: manager where
  "alice_and_tokenless_bob = \<lparr>profiles = [(''alice'', alice_stored), (''bob'', bob_tokenless)],
     git = git_of_alice, notices = []\<rparr>"

definition alice_carol_bob :: manager where
  "alice_carol_bob =
     \<lparr>profiles = [(''alice'', alice_stored), (''carol'', carol_stored), (''bob'', bob_stored)],
      git = git_of_alice, notices = []\<rparr>"

definition only_alice :: manager where
  "only_alice = \<lparr>profiles = [(''alice'', alice_stored)], git = git_of_alice, notices = []\<rparr>"

definition bob_padded :: profile where
  "bob_padded = \<lparr>token = Some ''tb'', name = Some '' Bob'', email = Some ''b@x.com'',
     tag = Some ''home'', avatar_url = None, is_current = Some True\<rparr>"

definition git_of_padded_bob :: git_state where
  "git_of_padded_bob = \<lparr>user_name = Some '' Bob'', user_email = Some ''b@x.com'',
     credential_helper = Some ''manager-core'', credentials = [(''bob'', ''tb'')]\<rparr>"

definition only_padded_bob :: manager where
  "only_padded_bob = \<lparr>profiles = [(''bob'', bob_padded)], git = git_of_padded_bob,
     notices = []\<rparr>"

definition alice_and_bob_padded_git :: manager where
  "alice_and_bob_padded_git =
     \<lparr>profiles = [(''alice'', alice_stored), (''bob'', bob_stored)],
      git = git_of_padded_bob, notices = []\<rparr>"

definition session :: oauth_dialog where
  "session = init_dialog ''https://github.com/login/device'' ''ABCD-1234'' 1 ''dev'' 5"

definition pending :: tick where
  "pending = PollTick (PollData (Some ''authorization_pending'') None None) []"

section \<open>Properties of the merge\<close>

lemma update_absent_append:
  "map_of ps k = None \<Longrightarrow> AList.update k v ps = ps @ [(k, v)]"
  by (induction ps) (auto split: if_splits)

lemma map_of_merge_profiles_same:
  "map_of P u = Some p \<Longrightarrow> gp_username E = Some u \<Longrightarrow>
   map_of (merge_profiles P E) u =
     Some (if u \<noteq> [] \<and> gp_password E \<noteq> None then merge_existing p E else p)"
  by (auto simp: merge_profiles_def update_conv')

lemma merge_existing_token: "token (merge_existing p E) = token p"
  by (simp add: merge_existing_def Let_def)

lemma merge_existing_email:
  "email (merge_existing p E) =
     (if truthy (gp_email E) \<and> \<not> truthy (email p) then gp_email E else email p)"
  by (auto simp: merge_existing_def Let_def)

lemma merge_existing_name:
  "name (merge_existing p E) =
     (if truthy (gp_name E) \<and> \<not> truthy (name p) then gp_name E else name p)"
  by (auto simp: merge_existing_def Let_def)

lemma merge_existing_idem: "merge_existing (merge_existing p E) E = merge_existing p E"
  by (cases "gp_email E"; cases "gp_name E"; cases "email p"; cases "name p")
     (auto simp: merge_existing_def Let_def)

lemma merge_existing_new_profile:
  "u \<noteq> [] \<Longrightarrow> merge_existing (new_profile_from_git u E) E = new_profile_from_git u E"
  by (cases "gp_email E"; cases "gp_name E")
     (auto simp: merge_existing_def new_profile_from_git_def Let_def)

text \<open>
  C4. For a persisted collection \<open>P\<close> that holds \<open>u\<close> and an external credential with
  identifier \<open>u\<close>, the merged collection still holds \<open>u\<close>; its email and name differ
  from the stored ones only where the stored value was empty (then they are the external
  ones), so a non-empty stored email or name is kept whatever the external credential
  says, and the stored token is never replaced.
\<close>

theorem merge_profiles_non_destructive:
  assumes "map_of P u = Some p" and "gp_username E = Some u"
  shows "\<exists>p'. map_of (merge_profiles P E) u = Some p' \<and>
           (truthy (email p) \<longrightarrow> email p' = email p) \<and>
           (truthy (name p) \<longrightarrow> name p' = name p) \<and>
           (email p' \<noteq> email p \<longrightarrow> \<not> truthy (email p) \<and> email p' = gp_email E) \<and>
           (name p' \<noteq> name p \<longrightarrow> \<not> truthy (name p) \<and> name p' = gp_name E) \<and>
           token p' = token p"
  using assms
  by (simp add: map_of_merge_profiles_same merge_existing_token merge_existing_email
      merge_existing_name)

theorem merge_profiles_non_destructive_witness:
  "map_of [(''alice'', alice_stored), (''bob'', bob_stored)] ''alice'' = Some alice_stored \<and>
   gp_username alice_external = Some ''alice'' \<and>
   (\<exists>p'. map_of (merge_profiles [(''alice'', alice_stored), (''bob'', bob_stored)]
            alice_external) ''alice'' = Some p' \<and>
      name p' = Some ''Alice'' \<and> email p' = Some ''a@x.com'' \<and> token p' = Some ''old'')"
  using merge_profiles_non_destructive
    [of "[(''alice'', alice_stored), (''bob'', bob_stored)]" "''alice''" alice_stored
      alice_external]
  by (auto simp: alice_stored_def alice_external_def merge_profiles_def merge_existing_def)

text \<open>
  C5. The merge is idempotent: merging the same external credential a second time changes
  nothing.
\<close>

theorem merge_profiles_idempotent:
  "merge_profiles (merge_profiles P E) E = merge_profiles P E"
  by (auto simp: merge_profiles_def update_conv' merge_existing_idem
      merge_existing_new_profile split: option.splits)

theorem merge_profiles_idempotent_witness:
  "merge_profiles (merge_profiles [(''bob'', bob_stored)] alice_external) alice_external =
     [(''bob'', bob_stored),
      (''alice'', \<lparr>token = Some ''t1'', name = Some ''Alice A'', email = Some ''a@x.com'',
         tag = Some ''N/A'', avatar_url = None, is_current = None\<rparr>)]"
  using merge_profiles_idempotent [of "[(''bob'', bob_stored)]" alice_external]
  by (simp add: merge_profiles_def new_profile_from_git_def alice_external_def)

text \<open>
  C6, as stated, fails: an external credential that has an identifier but no secret does
  not lack both, its identifier is not in the (empty) persisted collection, and yet no
  profile is synthesized.
\<close>

theorem merge_profiles_identifier_only_counterexample:
  "\<not> (gp_username alice_without_secret = None \<and> gp_password alice_without_secret = None) \<and>
   map_of ([] :: profiles) ''alice'' = None \<and>
   merge_profiles [] alice_without_secret = []"
  by (simp add: merge_profiles_def alice_without_secret_def)

text \<open>
  C6, amended. If the external credential lacks the identifier (absent or empty) or lacks
  the secret, the persisted collection is returned unchanged. If it has both and the
  identifier is not in the persisted collection, one profile is appended under that
  identifier, with the secret as token, tag \<^verbatim>\<open>N/A\<close>, the external name (the identifier
  when the name is absent or empty) and the external email (empty when absent). From the
  empty store and the credential of \<^verbatim>\<open>alice\<close> this yields exactly one profile.
\<close>

theorem merge_profiles_case_split:
  "(\<not> truthy (gp_username E) \<or> gp_password E = None \<longrightarrow> merge_profiles P E = P) \<and>
   (\<forall>u pw. gp_username E = Some u \<and> u \<noteq> [] \<and> gp_password E = Some pw \<and>
       map_of P u = None \<longrightarrow>
       merge_profiles P E =
         P @ [(u, \<lparr>token = Some pw, name = Some (get_or_else (gp_name E) u),
                   email = Some (get_or_else (gp_email E) []), tag = Some ''N/A'',
                   avatar_url = None, is_current = None\<rparr>)]) \<and>
   merge_profiles [] alice_external =
     [(''alice'', \<lparr>token = Some ''t1'', name = Some ''Alice A'', email = Some ''a@x.com'',
        tag = Some ''N/A'', avatar_url = None, is_current = None\<rparr>)]"
proof (intro conjI allI impI)
  assume "\<not> truthy (gp_username E) \<or> gp_password E = None"
  then show "merge_profiles P E = P"
    by (cases "gp_username E") (auto simp: merge_profiles_def)
next
  fix u pw
  assume "gp_username E = Some u \<and> u \<noteq> [] \<and> gp_password E = Some pw \<and> map_of P u = None"
  then show "merge_profiles P E =
         P @ [(u, \<lparr>token = Some pw, name = Some (get_or_else (gp_name E) u),
                   email = Some (get_or_else (gp_email E) []), tag = Some ''N/A'',
                   avatar_url = None, is_current = None\<rparr>)]"
    by (simp add: merge_profiles_def new_profile_from_git_def update_absent_append)
next
  show "merge_profiles [] alice_external =
     [(''alice'', \<lparr>token = Some ''t1'', name = Some ''Alice A'', email = Some ''a@x.com'',
        tag = Some ''N/A'', avatar_url = None, is_current = None\<rparr>)]"
    by (simp add: merge_profiles_def new_profile_from_git_def alice_external_def)
qed

theorem merge_profiles_case_split_witness:
  "merge_profiles [(''bob'', bob_stored)] alice_without_secret = [(''bob'', bob_stored)] \<and>
   merge_profiles [(''bob'', bob_stored)] alice_external =
     [(''bob'', bob_stored),
      (''alice'', \<lparr>token = Some ''t1'', name = Some ''Alice A'', email = Some ''a@x.com'',
         tag = Some ''N/A'', avatar_url = None, is_current = None\<rparr>)]"
  using merge_profiles_case_split [of alice_without_secret "[(''bob'', bob_stored)]"]
    merge_profiles_case_split [of alice_external "[(''bob'', bob_stored)]"]
  by (simp add: alice_without_secret_def alice_external_def)

text \<open>
  C10. When the persisted collection holds \<open>u\<close> without a token (absent or empty) and the
  external credential has identifier \<open>u\<close> and a non-empty secret, the merged profile of
  \<open>u\<close> has the token slot it had: the secret is not copied, and switching to \<open>u\<close> in a
  manager holding the merged collection raises instead of activating.
\<close>

theorem merge_profiles_keeps_missing_token:
  assumes "map_of P u = Some p" and "\<not> truthy (token p)"
    and "gp_username E = Some u" and "gp_password E = Some pw" and "pw \<noteq> []"
  shows "\<exists>p'. map_of (merge_profiles P E) u = Some p' \<and> token p' = token p \<and>
           \<not> truthy (token p') \<and> token p' \<noteq> Some pw \<and>
           isl (switch_to_profile e u \<lparr>profiles = merge_profiles P E, git = g, notices = ns\<rparr>)"
proof -
  let ?p' = "if u \<noteq> [] \<and> gp_password E \<noteq> None then merge_existing p E else p"
  have m: "map_of (merge_profiles P E) u = Some ?p'"
    using assms(1,3) by (rule map_of_merge_profiles_same)
  have t: "token ?p' = token p"
    by (simp add: merge_existing_token)
  with assms(2) have f: "\<not> truthy (token ?p')" by simp
  with assms(5) have n: "token ?p' \<noteq> Some pw" by auto
  have "isl (switch_to_profile e u \<lparr>profiles = merge_profiles P E, git = g, notices = ns\<rparr>)"
    using m f by (cases "token ?p'") (auto simp: switch_to_profile_def)
  with m t f n show ?thesis by blast
qed

theorem merge_profiles_keeps_missing_token_witness:
  "map_of [(''alice'', alice_tokenless)] ''alice'' = Some alice_tokenless \<and>
   \<not> truthy (token alice_tokenless) \<and> gp_username alice_external = Some ''alice'' \<and>
   gp_password alice_external = Some ''t1'' \<and>
   (\<exists>p'. map_of (merge_profiles [(''alice'', alice_tokenless)] alice_external) ''alice'' = Some p' \<and>
      token p' = None \<and>
      isl (switch_to_profile no_failures ''alice''
        \<lparr>profiles = merge_profiles [(''alice'', alice_tokenless)] alice_external,
         git = git_of_alice, notices = []\<rparr>))"
  using merge_profiles_keeps_missing_token
    [of "[(''alice'', alice_tokenless)]" "''alice''" alice_tokenless alice_external "''t1''"
      no_failures git_of_alice "[]"]
  by (auto simp: alice_tokenless_def alice_external_def)

section \<open>Resolving the active profile\<close>

lemma find_current_find:
  "find_current ps n e = map_option fst (find (\<lambda>(u, p). matches p n e) ps)"
  by (induction ps n e rule: find_current.induct) simp_all

lemma find_current_None:
  "find_current ps n e = None \<longleftrightarrow> (\<forall>x \<in> set ps. \<not> matches (snd x) n e)"
  by (auto simp: find_current_find find_None_iff)

lemma find_current_Some:
  "find_current ps n e = Some u \<longleftrightarrow>
     (\<exists>i<length ps. fst (ps ! i) = u \<and> matches (snd (ps ! i)) n e \<and>
        (\<forall>j<i. \<not> matches (snd (ps ! j)) n e))"
proof -
  have "find_current ps n e = Some u \<longleftrightarrow>
     (\<exists>x. find (\<lambda>(u, p). matches p n e) ps = Some x \<and> fst x = u)"
    by (simp add: find_current_find)
  also have "\<dots> \<longleftrightarrow> (\<exists>x. (\<exists>i<length ps. matches (snd (ps ! i)) n e \<and> x = ps ! i \<and>
        (\<forall>j<i. \<not> matches (snd (ps ! j)) n e)) \<and> fst x = u)"
    by (simp only: find_Some_iff case_prod_beta)
  also have "\<dots> \<longleftrightarrow> (\<exists>i<length ps. fst (ps ! i) = u \<and> matches (snd (ps ! i)) n e \<and>
        (\<forall>j<i. \<not> matches (snd (ps ! j)) n e))"
    by blast
  finally show ?thesis .
qed

lemma find_current_skip:
  "\<forall>x \<in> set pre. \<not> matches (snd x) n e \<Longrightarrow>
   find_current (pre @ xs) n e = find_current xs n e"
  by (induction pre) auto

text \<open>
  C7, as stated, fails: the profile of \<^verbatim>\<open>bob\<close> has exactly the name and email that git
  holds, the name with a leading blank (as \<^verbatim>\<open>edit_profile\<close> writes it through), and
  \<^verbatim>\<open>get_current_profile\<close> returns none, because it strips what git prints before it
  compares.
\<close>

theorem get_current_profile_padded_name_counterexample:
  "map_of (profiles only_padded_bob) ''bob'' = Some bob_padded \<and>
   user_name (git only_padded_bob) = Some '' Bob'' \<and>
   user_email (git only_padded_bob) = Some ''b@x.com'' \<and>
   matches bob_padded '' Bob'' ''b@x.com'' \<and>
   get_current_profile no_failures only_padded_bob = None"
  by (simp add: only_padded_bob_def bob_padded_def git_of_padded_bob_def no_failures_def
      matches_def get_current_profile_def config_stdout_def strip_def is_space_def)

text \<open>
  C7, amended. Let \<open>cn\<close> and \<open>ce\<close> be git's global \<^verbatim>\<open>user.name\<close> and
  \<^verbatim>\<open>user.email\<close> with leading and trailing whitespace stripped, each the empty string
  when the key is unset or the read fails. \<^verbatim>\<open>get_current_profile\<close> returns the username
  at the first position, in mapping order, whose profile has exactly the name \<open>cn\<close> and
  the email \<open>ce\<close> (an absent key counting as the empty string, as
  \<^verbatim>\<open>profile.get(key, '')\<close> reads it), and returns none exactly when no profile has
  them; of two profiles sharing the pair, the earlier one is returned.
\<close>

theorem get_current_profile_first_match:
  assumes "cn = (if git_fails e (ConfigGet UserName) then []
                 else case user_name (git s) of None \<Rightarrow> [] | Some v \<Rightarrow> strip v)"
    and "ce = (if git_fails e (ConfigGet UserEmail) then []
               else case user_email (git s) of None \<Rightarrow> [] | Some v \<Rightarrow> strip v)"
  shows "(get_current_profile e s = Some u \<longleftrightarrow>
            (\<exists>i<length (profiles s). fst (profiles s ! i) = u \<and>
               matches (snd (profiles s ! i)) cn ce \<and>
               (\<forall>j<i. \<not> matches (snd (profiles s ! j)) cn ce))) \<and>
         (get_current_profile e s = None \<longleftrightarrow>
            (\<forall>x \<in> set (profiles s). \<not> matches (snd x) cn ce)) \<and>
         (profiles s = pre @ (u1, p) # mid @ (u2, q) # post \<and>
          matches p cn ce \<and> matches q cn ce \<and> (\<forall>x \<in> set pre. \<not> matches (snd x) cn ce) \<longrightarrow>
            get_current_profile e s = Some u1)"
proof -
  have g: "get_current_profile e s = find_current (profiles s) cn ce"
    using assms by (simp add: get_current_profile_def config_stdout_def)
  show ?thesis
  proof (intro conjI impI)
    show "get_current_profile e s = Some u \<longleftrightarrow>
            (\<exists>i<length (profiles s). fst (profiles s ! i) = u \<and>
               matches (snd (profiles s ! i)) cn ce \<and>
               (\<forall>j<i. \<not> matches (snd (profiles s ! j)) cn ce))"
      unfolding g by (rule find_current_Some)
  next
    show "get_current_profile e s = None \<longleftrightarrow>
            (\<forall>x \<in> set (profiles s). \<not> matches (snd x) cn ce)"
      unfolding g by (rule find_current_None)
  next
    assume a: "profiles s = pre @ (u1, p) # mid @ (u2, q) # post \<and>
          matches p cn ce \<and> matches q cn ce \<and> (\<forall>x \<in> set pre. \<not> matches (snd x) cn ce)"
    then have "find_current (pre @ xs) cn ce = find_current xs cn ce" for xs
      by (simp add: find_current_skip)
    with a show "get_current_profile e s = Some u1"
      unfolding g by simp
  qed
qed

theorem get_current_profile_first_match_witness:
  "strip '' Bob'' = ''Bob'' \<and>
   get_current_profile no_failures only_padded_bob = None \<and>
   get_current_profile no_failures alice_and_bob_padded_git = Some ''bob''"
proof -
  have st: "strip '' Bob'' = ''Bob''"
    by (simp add: strip_def is_space_def)
  have n1: "''Bob'' = (if git_fails no_failures (ConfigGet UserName) then []
      else case user_name (git only_padded_bob) of None \<Rightarrow> [] | Some v \<Rightarrow> strip v)"
    by (simp add: st only_padded_bob_def git_of_padded_bob_def no_failures_def)
  have e1: "''b@x.com'' = (if git_fails no_failures (ConfigGet UserEmail) then []
      else case user_email (git only_padded_bob) of None \<Rightarrow> [] | Some v \<Rightarrow> strip v)"
    by (simp add: only_padded_bob_def git_of_padded_bob_def no_failures_def strip_def
        is_space_def)
  have n2: "''Bob'' = (if git_fails no_failures (ConfigGet UserName) then []
      else case user_name (git alice_and_bob_padded_git) of None \<Rightarrow> [] | Some v \<Rightarrow> strip v)"
    by (simp add: st alice_and_bob_padded_git_def git_of_padded_bob_def no_failures_def)
  have e2: "''b@x.com'' = (if git_fails no_failures (ConfigGet UserEmail) then []
      else case user_email (git alice_and_bob_padded_git) of None \<Rightarrow> [] | Some v \<Rightarrow> strip v)"
    by (simp add: alice_and_bob_padded_git_def git_of_padded_bob_def no_failures_def strip_def
        is_space_def)
  have "get_current_profile no_failures only_padded_bob = None \<longleftrightarrow>
      (\<forall>x \<in> set (profiles only_padded_bob). \<not> matches (snd x) ''Bob'' ''b@x.com'')"
    by (rule get_current_profile_first_match [OF n1 e1, THEN conjunct2, THEN conjunct1])
  then have a: "get_current_profile no_failures only_padded_bob = None"
    by (simp add: only_padded_bob_def bob_padded_def matches_def)
  have "get_current_profile no_failures alice_and_bob_padded_git = Some ''bob'' \<longleftrightarrow>
      (\<exists>i<length (profiles alice_and_bob_padded_git).
         fst (profiles alice_and_bob_padded_git ! i) = ''bob'' \<and>
         matches (snd (profiles alice_and_bob_padded_git ! i)) ''Bob'' ''b@x.com'' \<and>
         (\<forall>j<i. \<not> matches (snd (profiles alice_and_bob_padded_git ! j)) ''Bob'' ''b@x.com''))"
    by (rule get_current_profile_first_match [OF n2 e2, THEN conjunct1])
  moreover have "\<exists>i<length (profiles alice_and_bob_padded_git).
         fst (profiles alice_and_bob_padded_git ! i) = ''bob'' \<and>
         matches (snd (profiles alice_and_bob_padded_git ! i)) ''Bob'' ''b@x.com'' \<and>
         (\<forall>j<i. \<not> matches (snd (profiles alice_and_bob_padded_git ! j)) ''Bob'' ''b@x.com'')"
    by (rule exI [of _ 1])
       (simp add: alice_and_bob_padded_git_def matches_def alice_stored_def bob_stored_def)
  ultimately have b: "get_current_profile no_failures alice_and_bob_padded_git = Some ''bob''"
    by simp
  from st a b show ?thesis by simp
qed

section \<open>The invariant on the active flags\<close>

lemma profiles_notify [simp]: "profiles (notify n s) = profiles s"
  by (simp add: notify_def)

lemma git_notify [simp]: "git (notify n s) = git s"
  by (simp add: notify_def)

lemma profiles_update_git_config [simp]:
  "profiles (update_git_config e u nm em tok s) = profiles s"
  by (simp add: update_git_config_def split: prod.splits option.splits)

lemma profiles_update_current_profile [simp]:
  "profiles (update_current_profile u s) = set_current u (profiles s)"
  by (simp add: update_current_profile_def)

lemma keys_set_current [simp]: "map fst (set_current u ps) = map fst ps"
  by (induction ps) (auto simp: set_current_def)

lemma keys_clear_current [simp]: "map fst (clear_current ps) = map fst ps"
  by (induction ps) (auto simp: clear_current_def)

lemma active_count_set_current:
  "active_count (set_current u ps) = length (filter (\<lambda>x. fst x = u) ps)"
  by (induction ps) (auto simp: set_current_def active_count_def is_active_def)

lemma distinct_filter_key_le_1:
  "distinct (map fst ps) \<Longrightarrow> length (filter (\<lambda>x. fst x = u) ps) \<le> Suc 0"
proof (induction ps)
  case Nil
  then show ?case by simp
next
  case (Cons x ps)
  show ?case
  proof (cases "fst x = u")
    case True
    with Cons.prems have "u \<notin> fst ` set ps" by simp
    then have "\<forall>y \<in> set ps. fst y \<noteq> u" by (auto simp: image_iff)
    then have "filter (\<lambda>x. fst x = u) ps = []" by (simp add: filter_empty_conv)
    with True show ?thesis by simp
  next
    case False
    with Cons show ?thesis by simp
  qed
qed

lemma active_count_set_current_le [simp]:
  "distinct (map fst ps) \<Longrightarrow> active_count (set_current u ps) \<le> Suc 0"
  by (simp add: active_count_set_current distinct_filter_key_le_1)

lemma active_count_set_current_member:
  assumes "distinct (map fst ps)" and "v \<in> set (map fst ps)"
  shows "active_count (set_current v ps) = 1"
proof -
  from assms(2) have "filter (\<lambda>x. fst x = v) ps \<noteq> []"
    by (auto simp: filter_empty_conv)
  then have "length (filter (\<lambda>x. fst x = v) ps) \<noteq> 0" by simp
  with distinct_filter_key_le_1 [OF assms(1), of v] show ?thesis
    unfolding active_count_set_current by linarith
qed

lemma set_current_active_iff:
  "(k, p') \<in> set (set_current v ps) \<Longrightarrow> is_active p' \<longleftrightarrow> k = v"
  by (auto simp: set_current_def is_active_def)

lemma active_count_clear_current [simp]: "active_count (clear_current ps) = 0"
  by (simp add: clear_current_def active_count_def is_active_def filter_empty_conv
      case_prod_beta)

lemma active_count_delete: "active_count (AList.delete u ps) \<le> active_count ps"
  by (induction ps) (auto simp: active_count_def)

lemma active_count_update_absent:
  "map_of ps u = None \<Longrightarrow> active_count (AList.update u p ps) =
     active_count ps + (if is_active p then 1 else 0)"
  by (simp add: update_absent_append active_count_def)

lemma active_count_update_present:
  "map_of ps u = Some p \<Longrightarrow> is_active p' = is_active p \<Longrightarrow>
   active_count (AList.update u p' ps) = active_count ps"
  by (induction ps) (auto simp: active_count_def split: if_splits)

lemma profiles_ok_set_current: "distinct (map fst ps) \<Longrightarrow> profiles_ok (set_current u ps)"
  by (simp add: profiles_ok_def)

lemma profiles_ok_clear_current: "distinct (map fst ps) \<Longrightarrow> profiles_ok (clear_current ps)"
  by (simp add: profiles_ok_def)

lemma profiles_ok_delete: "profiles_ok ps \<Longrightarrow> profiles_ok (AList.delete u ps)"
  using active_count_delete [of u ps] by (simp add: profiles_ok_def distinct_delete)

lemma distinct_merge_profiles:
  "distinct (map fst kp) \<Longrightarrow> distinct (map fst (merge_profiles kp gp))"
  by (simp add: merge_profiles_def distinct_update split: option.splits)

lemma switch_to_profile_profiles:
  "switch_to_profile e u s = Inr s' \<Longrightarrow> profiles s' = set_current u (profiles s)"
  by (auto simp: switch_to_profile_def split: option.splits if_splits)

lemma profiles_ok_load_profiles:
  "well_formed (LoadProfiles keyring fill) \<Longrightarrow> profiles_ok (profiles s) \<Longrightarrow>
   profiles_ok (profiles (load_profiles e keyring fill s))"
  by (cases keyring)
     (auto simp: load_profiles_def Let_def profiles_ok_set_current profiles_ok_clear_current
       distinct_merge_profiles split: option.splits)

lemma profiles_ok_switch_profile:
  "profiles_ok (profiles s) \<Longrightarrow> profiles_ok (profiles (switch_profile e sel s))"
  by (auto simp: switch_profile_def profiles_ok_set_current profiles_ok_def split: option.splits)

lemma profiles_ok_clear_git_config:
  "profiles_ok (profiles s) \<Longrightarrow> profiles_ok (profiles (clear_git_config e s))"
  by (auto simp: clear_git_config_def profiles_ok_clear_current profiles_ok_def
      split: prod.splits option.splits)

lemma profiles_ok_edit_profile:
  "profiles_ok (profiles s) \<Longrightarrow> profiles_ok (profiles (edit_profile e sel ed s))"
proof (cases sel)
  case None
  assume "profiles_ok (profiles s)"
  with None show ?thesis by (simp add: edit_profile_def)
next
  case (Some u)
  assume i: "profiles_ok (profiles s)"
  show ?thesis
  proof (cases "map_of (profiles s) u")
    case None
    with Some i show ?thesis by (simp add: edit_profile_def)
  next
    case (Some p)
    have "profiles_ok
        (AList.update u (p\<lparr>name := Some a, email := Some b, tag := Some c\<rparr>) (profiles s))"
      for a b c
      using i Some
      by (simp add: profiles_ok_def distinct_update active_count_update_present is_active_def)
    with \<open>sel = Some u\<close> Some i show ?thesis
      by (auto simp: edit_profile_def Let_def split: option.splits prod.splits)
  qed
qed

lemma profiles_ok_delete_profile:
  assumes "profiles_ok (profiles s)"
  shows "profiles_ok (profiles (delete_profile e sel c s))"
proof -
  have d: "profiles_ok (AList.delete u (profiles s))" for u
    using assms by (rule profiles_ok_delete)
  then have d': "distinct (map fst (AList.delete u (profiles s)))" for u
    by (simp add: profiles_ok_def)
  have n: "profiles_ok []"
    by (simp add: profiles_ok_def active_count_def)
  show ?thesis
    using assms d n
    by (auto simp: delete_profile_def Let_def profiles_ok_set_current d'
        profiles_ok_clear_git_config
        dest!: switch_to_profile_profiles split: option.splits sum.splits)
qed

lemma profiles_ok_handle_oauth_completion:
  assumes "profiles_ok (profiles s)"
  shows "profiles_ok (profiles (handle_oauth_completion e tok info tg s))"
proof -
  have a: "profiles_ok (AList.update u \<lparr>token = t, name = n, email = m, tag = g,
      avatar_url = a, is_current = None\<rparr> (profiles s))" if "map_of (profiles s) u = None"
    for u t n m g a
    using assms that
    by (simp add: profiles_ok_def distinct_update active_count_update_absent is_active_def)
  then have b: "distinct (map fst (AList.update u \<lparr>token = t, name = n, email = m, tag = g,
      avatar_url = a, is_current = None\<rparr> (profiles s)))" if "map_of (profiles s) u = None"
    for u t n m g a
    using that by (simp add: profiles_ok_def)
  show ?thesis
    using assms
    by (auto simp: handle_oauth_completion_def Let_def a b profiles_ok_set_current
        dest!: switch_to_profile_profiles split: user_info.splits option.splits sum.splits)
qed

lemma profiles_ok_step:
  "profiles_ok (profiles s) \<Longrightarrow> well_formed op \<Longrightarrow> profiles_ok (profiles (step e op s))"
  by (cases op)
     (simp_all add: profiles_ok_load_profiles profiles_ok_handle_oauth_completion
       profiles_ok_switch_profile profiles_ok_edit_profile profiles_ok_delete_profile
       profiles_ok_clear_git_config)

lemma profiles_ok_init_manager:
  assumes "well_formed (LoadProfiles keyring fill)"
  shows "profiles_ok (profiles (init_manager e keyring fill g))"
proof -
  have "profiles_ok (profiles \<lparr>profiles = [], git = g, notices = []\<rparr>)"
    by (simp add: profiles_ok_def active_count_def)
  with assms
  have "profiles_ok (profiles (load_profiles e keyring fill
      \<lparr>profiles = [], git = g, notices = []\<rparr>))"
    by (rule profiles_ok_load_profiles)
  then show ?thesis
    by (auto simp: init_manager_def Let_def profiles_ok_set_current profiles_ok_def
        split: option.splits)
qed

lemma reachable_profiles_ok: "reachable s \<Longrightarrow> profiles_ok (profiles s)"
  by (induction rule: reachable.induct) (simp_all add: profiles_ok_init_manager profiles_ok_step)

text \<open>
  C2. In every state reachable from start-up by loading, adding an account, switching,
  editing, deleting and clearing the git configuration, at most one profile has
  \<^verbatim>\<open>is_current\<close> true.
\<close>

theorem reachable_at_most_one_active:
  assumes "reachable s"
  shows "active_count (profiles s) \<le> 1"
  using reachable_profiles_ok [OF assms] by (simp add: profiles_ok_def)

theorem reachable_at_most_one_active_witness:
  "reachable (step no_failures (SwitchProfile (Some ''bob''))
      (init_manager no_failures (Some (profiles alice_and_bob)) (None, None) git_of_alice)) \<and>
   active_count (profiles (step no_failures (SwitchProfile (Some ''bob''))
      (init_manager no_failures (Some (profiles alice_and_bob)) (None, None) git_of_alice)))
     \<le> 1"
proof -
  have "well_formed (LoadProfiles (Some (profiles alice_and_bob)) (None, None))"
    by (simp add: alice_and_bob_def)
  then have "reachable
      (init_manager no_failures (Some (profiles alice_and_bob)) (None, None) git_of_alice)"
    by (rule reachable.start)
  then have r: "reachable (step no_failures (SwitchProfile (Some ''bob''))
      (init_manager no_failures (Some (profiles alice_and_bob)) (None, None) git_of_alice))"
    by (rule reachable.next_state) simp
  from r reachable_at_most_one_active [OF r] show ?thesis by simp
qed


section \<open>Activation and the write-through to git\<close>

lemma git_update_git_config_ok:
  "\<forall>c. \<not> git_fails e c \<Longrightarrow>
   git (update_git_config e u nm em tok s) =
     \<lparr>user_name = Some nm, user_email = Some em,
      credential_helper = Some ''manager-core'',
      credentials = AList.update u tok
        (if credential_helper (git s) = None then credentials (git s) else [])\<rparr>"
  by (cases "git s") (simp add: update_git_config_def remove_all_github_credentials_def)

lemma git_clear_git_config_ok:
  "\<forall>c. \<not> git_fails e c \<Longrightarrow>
   git (clear_git_config e s) =
     \<lparr>user_name = None, user_email = None, credential_helper = None,
      credentials = credentials (git s)\<rparr>"
  by (cases "git s") (simp add: clear_git_config_def remove_all_github_credentials_def notify_def)

lemma remove_git_credential_helper [simp]:
  "credential_helper (remove_git_credential e u g) = credential_helper g"
  by (simp add: remove_git_credential_def)

lemma profiles_clear_git_config_empty:
  "profiles s = [] \<Longrightarrow> profiles (clear_git_config e s) = []"
  by (simp add: clear_git_config_def notify_def clear_current_def split: prod.splits option.splits)

text \<open>
  C1 does not hold of the code. With \<^verbatim>\<open>alice\<close> current, switching to \<^verbatim>\<open>bob\<close> while
  \<^verbatim>\<open>git config --global user.name Bob\<close> fails: \<^verbatim>\<open>update_git_config\<close> catches the
  \<^verbatim>\<open>CalledProcessError\<close> and reports it, \<^verbatim>\<open>switch_profile\<close> goes on, moves the
  \<^verbatim>\<open>is_current\<close> flag to \<^verbatim>\<open>bob\<close> and reports success, while git still names Alice and
  holds no credential.
\<close>

theorem switch_profile_after_failed_write_through:
  "switch_profile set_name_fails (Some ''bob'') alice_and_bob =
     \<lparr>profiles =
        [(''alice'', alice_stored\<lparr>is_current := Some False\<rparr>),
         (''bob'', bob_stored\<lparr>is_current := Some True\<rparr>)],
      git = \<lparr>user_name = Some ''Alice'', user_email = Some [],
              credential_helper = Some ''manager-core'', credentials = []\<rparr>,
      notices =
        [Critical ''Failed to update Git config''
           (CalledProcessError (ConfigSet UserName ''Bob'')),
         Information ''Success'' ''Switched to profile: bob'']\<rparr> \<and>
   profiles (switch_profile set_name_fails (Some ''bob'') alice_and_bob)
     \<noteq> profiles alice_and_bob"
  by (simp add: switch_profile_def set_name_fails_def alice_and_bob_def alice_stored_def
      bob_stored_def git_of_alice_def profile_truthy_def update_git_config_def
      remove_all_github_credentials_def update_current_profile_def set_current_def notify_def)

section \<open>Deleting the current profile\<close>

lemma hd_sort_least:
  fixes xs :: "'a::linorder list"
  assumes "xs \<noteq> []"
  shows "hd (sort xs) \<in> set xs \<and> (\<forall>x \<in> set xs. hd (sort xs) \<le> x)"
proof -
  from assms have "sort xs \<noteq> []" by (metis length_0_conv length_sort)
  then obtain y ys where s: "sort xs = y # ys" by (cases "sort xs") auto
  have "sorted (sort xs)" by simp
  with s have "sorted (y # ys)" by simp
  then have le: "\<forall>z \<in> set ys. y \<le> z" by simp
  have st: "set (y # ys) = set xs" using s by (metis set_sort)
  from st have "y \<in> set xs" by auto
  moreover from st le have "\<forall>x \<in> set xs. y \<le> x" by auto
  ultimately show ?thesis using s by simp
qed

lemma switch_to_profile_with_token:
  "map_of (profiles s) v = Some q \<Longrightarrow> token q = Some tok \<Longrightarrow> tok \<noteq> [] \<Longrightarrow>
   switch_to_profile e v s =
     Inr (notify (Information ''Profile Switch'' (''Switched to profile: '' @ v))
       (update_current_profile v
         (update_git_config e v (get_or (name q) v) (get_or (email q) []) tok s)))"
  by (simp add: switch_to_profile_def profile_truthy_def)

lemma delete_profile_active_rest:
  assumes "map_of (profiles s) u = Some p" and "is_active p" and "\<not> keyring_delete_fails e"
    and "AList.delete u (profiles s) \<noteq> []"
    and "map_of (AList.delete u (profiles s))
           (hd (sort (map fst (AList.delete u (profiles s))))) = Some q"
    and "token q = Some tok" and "tok \<noteq> []"
  shows "delete_profile e (Some u) True s =
     notify (Information ''Success'' (''Deleted profile: '' @ u))
       (notify (Information ''Profile Switch''
          (''Switched to profile: '' @ hd (sort (map fst (AList.delete u (profiles s))))))
         (update_current_profile (hd (sort (map fst (AList.delete u (profiles s)))))
           (update_git_config e (hd (sort (map fst (AList.delete u (profiles s)))))
              (get_or (name q) (hd (sort (map fst (AList.delete u (profiles s))))))
              (get_or (email q) []) tok
              (s\<lparr>profiles := AList.delete u (profiles s),
                 git := remove_git_credential e u (git s)\<rparr>))))"
proof -
  let ?s2 = "s\<lparr>profiles := AList.delete u (profiles s),
                 git := remove_git_credential e u (git s)\<rparr>"
  have "map_of (profiles ?s2) (hd (sort (map fst (AList.delete u (profiles s))))) = Some q"
    using assms(5) by simp
  from switch_to_profile_with_token [OF this assms(6,7), of e]
  show ?thesis
    using assms(1-4) by (simp add: delete_profile_def Let_def)
qed

lemma delete_profile_active_last:
  assumes "map_of (profiles s) u = Some p" and "is_active p" and "\<not> keyring_delete_fails e"
    and "AList.delete u (profiles s) = []"
  shows "delete_profile e (Some u) True s =
     notify (Information ''Success'' (''Deleted profile: '' @ u))
       (clear_git_config e (s\<lparr>profiles := [], git := remove_git_credential e u (git s)\<rparr>))"
  using assms by (simp add: delete_profile_def Let_def)

text \<open>
  C3, as stated, fails: \<^verbatim>\<open>alice\<close> is current, \<^verbatim>\<open>bob\<close> has no token. Deleting
  \<^verbatim>\<open>alice\<close> leaves \<^verbatim>\<open>bob\<close> in the collection and no profile current: the switch to
  \<^verbatim>\<open>bob\<close> raises before anything is written, and git keeps Alice's name.
\<close>

theorem delete_profile_fallback_without_token_counterexample:
  "is_active alice_stored \<and>
   length (profiles alice_and_tokenless_bob) = 2 \<and>
   profiles (delete_profile no_failures (Some ''alice'') True alice_and_tokenless_bob) =
     [(''bob'', bob_tokenless)] \<and>
   active_count (profiles
     (delete_profile no_failures (Some ''alice'') True alice_and_tokenless_bob)) = 0 \<and>
   user_name (git (delete_profile no_failures (Some ''alice'') True alice_and_tokenless_bob)) =
     Some ''Alice''"
  by (simp add: delete_profile_def no_failures_def alice_and_tokenless_bob_def alice_stored_def
      bob_tokenless_def git_of_alice_def is_active_def switch_to_profile_def profile_truthy_def
      remove_git_credential_def notify_def active_count_def Let_def)

text \<open>
  C3, amended. Let the current profile \<open>u\<close> be deleted (the user confirms, the keyring
  deletion does not raise), let \<open>rest\<close> be the remaining collection and \<open>v\<close> its
  lexicographically smallest username. If \<open>rest\<close> is not empty and \<open>v\<close> has a non-empty
  token, then afterwards the usernames are those of \<open>rest\<close>, exactly one profile is
  current and it is \<open>v\<close>, and, when no git command fails, git holds the name and email
  of \<open>v\<close>, the helper is configured and the store holds the token of \<open>v\<close> under \<open>v\<close>
  (and nothing else when a helper was configured before). If \<open>rest\<close> is empty, no profile
  is left, and, when no git command fails, \<^verbatim>\<open>user.name\<close>, \<^verbatim>\<open>user.email\<close> and
  \<^verbatim>\<open>credential.helper\<close> are unset.
\<close>

theorem delete_active_profile_fallback:
  assumes "distinct (map fst (profiles s))"
    and "map_of (profiles s) u = Some p" and "is_active p"
    and "\<not> keyring_delete_fails e"
    and "rest = AList.delete u (profiles s)"
    and "v = hd (sort (map fst rest))"
    and "s' = delete_profile e (Some u) True s"
  shows "(rest \<noteq> [] \<and> map_of rest v = Some q \<and> token q = Some tok \<and> tok \<noteq> [] \<longrightarrow>
           map fst (profiles s') = map fst rest \<and>
           v \<in> set (map fst rest) \<and> (\<forall>k \<in> set (map fst rest). v \<le> k) \<and>
           active_count (profiles s') = 1 \<and>
           (\<forall>x \<in> set (profiles s'). is_active (snd x) \<longleftrightarrow> fst x = v) \<and>
           ((\<forall>c. \<not> git_fails e c) \<longrightarrow>
              user_name (git s') = Some (get_or (name q) v) \<and>
              user_email (git s') = Some (get_or (email q) []) \<and>
              credential_helper (git s') = Some ''manager-core'' \<and>
              map_of (credentials (git s')) v = Some tok \<and>
              (credential_helper (git s) \<noteq> None \<longrightarrow> credentials (git s') = [(v, tok)]))) \<and>
         (rest = [] \<longrightarrow>
           profiles s' = [] \<and> active_count (profiles s') = 0 \<and>
           ((\<forall>c. \<not> git_fails e c) \<longrightarrow>
              user_name (git s') = None \<and> user_email (git s') = None \<and>
              credential_helper (git s') = None))"
proof (intro conjI impI)
  assume a: "rest \<noteq> [] \<and> map_of rest v = Some q \<and> token q = Some tok \<and> tok \<noteq> []"
  have d: "distinct (map fst rest)"
    using assms(1,5) by (simp add: distinct_delete)
  from a have ne: "map fst rest \<noteq> []" by simp
  from hd_sort_least [OF ne] assms(6)
  have least: "v \<in> set (map fst rest)" "\<forall>k \<in> set (map fst rest). v \<le> k" by simp_all
  from a assms(5,6)
  have "delete_profile e (Some u) True s =
     notify (Information ''Success'' (''Deleted profile: '' @ u))
       (notify (Information ''Profile Switch'' (''Switched to profile: '' @ v))
         (update_current_profile v
           (update_git_config e v (get_or (name q) v) (get_or (email q) []) tok
              (s\<lparr>profiles := rest, git := remove_git_credential e u (git s)\<rparr>))))"
    using delete_profile_active_rest [OF assms(2,3,4), of q tok] by simp
  with assms(7) have s': "s' =
     notify (Information ''Success'' (''Deleted profile: '' @ u))
       (notify (Information ''Profile Switch'' (''Switched to profile: '' @ v))
         (update_current_profile v
           (update_git_config e v (get_or (name q) v) (get_or (email q) []) tok
              (s\<lparr>profiles := rest, git := remove_git_credential e u (git s)\<rparr>))))"
    by simp
  then have p: "profiles s' = set_current v rest"
    by simp
  show "map fst (profiles s') = map fst rest"
    by (simp add: p)
  show "v \<in> set (map fst rest)" by (rule least)
  show "\<forall>k \<in> set (map fst rest). v \<le> k" by (rule least)
  show "active_count (profiles s') = 1"
    using active_count_set_current_member [OF d least(1)] p by simp
  show "\<forall>x \<in> set (profiles s'). is_active (snd x) \<longleftrightarrow> fst x = v"
    using p set_current_active_iff [of _ _ v rest] by auto
  have g: "git s' = \<lparr>user_name = Some (get_or (name q) v),
      user_email = Some (get_or (email q) []),
      credential_helper = Some ''manager-core'',
      credentials = AList.update v tok
        (if credential_helper (git s) = None
         then credentials (remove_git_credential e u (git s)) else [])\<rparr>"
    if "\<forall>c. \<not> git_fails e c"
    using that s' by (simp add: update_current_profile_def git_update_git_config_ok)
  show "user_name (git s') = Some (get_or (name q) v)" if "\<forall>c. \<not> git_fails e c"
    using g [OF that] by simp
  show "user_email (git s') = Some (get_or (email q) [])" if "\<forall>c. \<not> git_fails e c"
    using g [OF that] by simp
  show "credential_helper (git s') = Some ''manager-core''" if "\<forall>c. \<not> git_fails e c"
    using g [OF that] by simp
  show "map_of (credentials (git s')) v = Some tok" if "\<forall>c. \<not> git_fails e c"
    using g [OF that] by (simp add: update_conv')
  show "credentials (git s') = [(v, tok)]"
    if "\<forall>c. \<not> git_fails e c" and "credential_helper (git s) \<noteq> None"
    using g [OF that(1)] that(2) by simp
next
  assume r: "rest = []"
  with assms(5,7) delete_profile_active_last [OF assms(2,3,4)]
  have s': "s' = notify (Information ''Success'' (''Deleted profile: '' @ u))
       (clear_git_config e (s\<lparr>profiles := [], git := remove_git_credential e u (git s)\<rparr>))"
    by simp
  then show p: "profiles s' = []"
    by (simp add: profiles_clear_git_config_empty)
  then show "active_count (profiles s') = 0"
    by (simp add: active_count_def)
  show "user_name (git s') = None" if "\<forall>c. \<not> git_fails e c"
    using that s' by (simp add: git_clear_git_config_ok)
  show "user_email (git s') = None" if "\<forall>c. \<not> git_fails e c"
    using that s' by (simp add: git_clear_git_config_ok)
  show "credential_helper (git s') = None" if "\<forall>c. \<not> git_fails e c"
    using that s' by (simp add: git_clear_git_config_ok)
qed

theorem delete_active_profile_fallback_witness:
  "distinct (map fst (profiles alice_carol_bob)) \<and>
   map_of (profiles alice_carol_bob) ''alice'' = Some alice_stored \<and>
   is_active alice_stored \<and> \<not> keyring_delete_fails no_failures \<and>
   AList.delete ''alice'' (profiles alice_carol_bob) =
     [(''carol'', carol_stored), (''bob'', bob_stored)] \<and>
   hd (sort (map fst [(''carol'', carol_stored), (''bob'', bob_stored)])) = ''bob'' \<and>
   active_count (profiles (delete_profile no_failures (Some ''alice'') True alice_carol_bob))
     = 1 \<and>
   git (delete_profile no_failures (Some ''alice'') True alice_carol_bob) =
     \<lparr>user_name = Some ''Bob'', user_email = Some ''b@x.com'',
      credential_helper = Some ''manager-core'', credentials = [(''bob'', ''tb'')]\<rparr> \<and>
   profiles (delete_profile no_failures (Some ''alice'') True only_alice) = [] \<and>
   user_name (git (delete_profile no_failures (Some ''alice'') True only_alice)) = None \<and>
   user_email (git (delete_profile no_failures (Some ''alice'') True only_alice)) = None \<and>
   credential_helper (git (delete_profile no_failures (Some ''alice'') True only_alice)) = None"
  using delete_active_profile_fallback
    [of alice_carol_bob "''alice''" alice_stored no_failures
      "[(''carol'', carol_stored), (''bob'', bob_stored)]" "''bob''"
      "delete_profile no_failures (Some ''alice'') True alice_carol_bob" bob_stored "''tb''"]
    delete_active_profile_fallback
    [of only_alice "''alice''" alice_stored no_failures "[]" "hd (sort (map fst []))"
      "delete_profile no_failures (Some ''alice'') True only_alice"]
  by (simp add: alice_carol_bob_def only_alice_def no_failures_def alice_stored_def
      bob_stored_def is_active_def git_of_alice_def git_state.equality)


section \<open>The device authorization dialog\<close>

lemma poll_for_token_slow_down:
  "poll_for_token during (PollData (Some ''slow_down'') iv tok) d =
     d\<lparr>interval := get_or iv (interval d + 5),
       poll_timer_interval := get_or iv (interval d + 5) * 1000\<rparr>"
  by (simp add: poll_for_token_def Let_def)

lemma poll_for_token_pending:
  "poll_for_token during (PollData (Some ''authorization_pending'') iv tok) d = d"
  by (simp add: poll_for_token_def)

text \<open>
  C8, as stated, fails: a polling session with interval 5 that receives
  \<^verbatim>\<open>slow_down\<close> with a suggested interval of 5 keeps the interval 5.
\<close>

theorem slow_down_same_interval_counterexample:
  "poll_timer_active session \<and> dialog_result session = Open \<and> interval session = 5 \<and>
   interval (deliver (PollTick (PollData (Some ''slow_down'') (Some 5) None) []) session) = 5"
  by (simp add: session_def init_dialog_def poll_for_token_def Let_def)

text \<open>
  C8, amended. In a polling session a \<^verbatim>\<open>slow_down\<close> response sets the interval (and the
  poll timer) to the value the server suggests, whatever it is, and to the current
  interval plus 5 seconds when the server suggests none; the new interval is larger than
  the old one exactly when the server's value is, and always in the second case. Nothing
  else in the session changes: the dialog stays open, the poll timer keeps running,
  nothing is emitted. An \<^verbatim>\<open>authorization_pending\<close> response changes nothing at all.
  Neither branch opens a nested event loop, so the ticks \<open>ns\<close> that a poll tick carries
  for one play no part.
\<close>

theorem slow_down_and_pending:
  assumes "poll_timer_active d"
  shows "deliver (PollTick (PollData (Some ''slow_down'') iv tok) ns) d =
           d\<lparr>interval := get_or iv (interval d + 5),
             poll_timer_interval := get_or iv (interval d + 5) * 1000\<rparr> \<and>
         (iv = None \<longrightarrow>
            interval (deliver (PollTick (PollData (Some ''slow_down'') iv tok) ns) d)
              = interval d + 5) \<and>
         (\<forall>i. iv = Some i \<longrightarrow>
            interval (deliver (PollTick (PollData (Some ''slow_down'') iv tok) ns) d) = i \<and>
            (interval d
               < interval (deliver (PollTick (PollData (Some ''slow_down'') iv tok) ns) d)
               \<longleftrightarrow> interval d < i)) \<and>
         dialog_result (deliver (PollTick (PollData (Some ''slow_down'') iv tok) ns) d)
           = dialog_result d \<and>
         poll_timer_active (deliver (PollTick (PollData (Some ''slow_down'') iv tok) ns) d) \<and>
         emitted (deliver (PollTick (PollData (Some ''slow_down'') iv tok) ns) d) = emitted d \<and>
         deliver (PollTick (PollData (Some ''authorization_pending'') iv tok) ns) d = d"
  using assms by (cases iv) (simp_all add: poll_for_token_slow_down poll_for_token_pending)

theorem slow_down_and_pending_witness:
  "poll_timer_active session \<and>
   interval (deliver (PollTick (PollData (Some ''slow_down'') (Some 30) None) []) session)
     = 30 \<and>
   interval (deliver (PollTick (PollData (Some ''slow_down'') None None) []) session) = 10 \<and>
   deliver pending session = session"
  using slow_down_and_pending [of session "Some 30" None "[]"]
    slow_down_and_pending [of session None None "[]"]
  by (simp add: session_def init_dialog_def pending_def)


text \<open>
  Nor does the countdown's expiry end the polling: the tick that brings the countdown to
  zero stops the countdown timer and enables the retry button, the poll timer keeps
  running, and a success response polled afterwards is processed as before.
\<close>

lemma poll_after_countdown_expiry:
  "\<not> timer_active (deliver CountdownTick session) \<and>
   retry_enabled (deliver CountdownTick session) \<and>
   expires_in (deliver CountdownTick session) = 0 \<and>
   poll_timer_active (deliver CountdownTick session) \<and>
   emitted (deliver (PollTick (PollData None None (Some ''tok'')) [])
     (deliver CountdownTick session)) = [''tok''] \<and>
   dialog_result (deliver (PollTick (PollData None None (Some ''tok'')) [])
     (deliver CountdownTick session)) = Accepted"
  by (simp add: session_def init_dialog_def poll_for_token_def update_timer_def Let_def)


end
